theory Spec2Isabelle
  imports Main
begin

section \<open>JavaScript values\<close>

text \<open>
  The two handlers of the repository, \<^verbatim>\<open>src/netlify/get-news.js\<close> and
  \<^verbatim>\<open>src/unnamed/part_000\<close>, are both called \<^verbatim>\<open>exports.handler\<close>.  They are
  embedded as \<open>get_news_handler\<close> and \<open>part_000_handler\<close>.

  A value produced by \<^verbatim>\<open>JSON.parse\<close> or by \<^verbatim>\<open>response.json()\<close> is a \<open>json\<close>.
  An object is an association list, read with \<open>map_of\<close>.  Numbers are kept as
  integers: the handlers only test a number for being zero and forward it otherwise.
  A JavaScript expression that may be \<^verbatim>\<open>undefined\<close> is a \<open>json option\<close>, with
  \<open>None\<close> for \<^verbatim>\<open>undefined\<close>.
\<close>

datatype json =
    JNull
  | JBool bool
  | JNum int
  | JStr string
  | JArr "json list"
  | JObj "(string \<times> json) list"

datatype js_error = SyntaxError string | TypeError string

text \<open>JavaScript truthiness, as used by \<^verbatim>\<open>!payload\<close> and \<^verbatim>\<open>!payload.contents\<close>.\<close>

definition truthy :: "json \<Rightarrow> bool" where
  "truthy v =
     (case v of
        JNull \<Rightarrow> False
      | JBool b \<Rightarrow> b
      | JNum n \<Rightarrow> n \<noteq> 0
      | JStr s \<Rightarrow> s \<noteq> []
      | JArr xs \<Rightarrow> True
      | JObj kvs \<Rightarrow> True)"

definition truthy_opt :: "json option \<Rightarrow> bool" where
  "truthy_opt v = (case v of None \<Rightarrow> False | Some j \<Rightarrow> truthy j)"

text \<open>
  Property access \<^verbatim>\<open>v.k\<close> for the three names the handlers read (\<^verbatim>\<open>contents\<close>,
  \<^verbatim>\<open>type\<close>, \<^verbatim>\<open>textToSummarize\<close>), none of which is a built-in property of a
  string, number, boolean or array: on \<^verbatim>\<open>null\<close> it throws a TypeError, on an object
  it is the stored value or \<^verbatim>\<open>undefined\<close>, on anything else it is \<^verbatim>\<open>undefined\<close>.
\<close>

definition get_prop :: "json \<Rightarrow> string \<Rightarrow> js_error + json option" where
  "get_prop v k =
     (case v of
        JNull \<Rightarrow> Inl (TypeError ''Cannot read properties of null'')
      | JObj kvs \<Rightarrow> Inr (map_of kvs k)
      | JBool b \<Rightarrow> Inr None
      | JNum n \<Rightarrow> Inr None
      | JStr s \<Rightarrow> Inr None
      | JArr xs \<Rightarrow> Inr None)"

text \<open>
  \<^verbatim>\<open>JSON.stringify\<close> leaves out a property whose value is \<^verbatim>\<open>undefined\<close>:
  \<open>field k v\<close> is the list of properties that \<^verbatim>\<open>{k: v}\<close> serialises to.
\<close>

definition field :: "string \<Rightarrow> json option \<Rightarrow> (string \<times> json) list" where
  "field k v = (case v of None \<Rightarrow> [] | Some j \<Rightarrow> [(k, j)])"

text \<open>The decimal text of a number, as a template literal interpolates a status.\<close>

function string_of_nat :: "nat \<Rightarrow> string" where
  "string_of_nat n =
     (if n < 10 then [char_of (48 + n)]
      else string_of_nat (n div 10) @ [char_of (48 + n mod 10)])"
  by pat_completeness auto
termination
  by (relation "measure id") auto

declare string_of_nat.simps [simp del]

section \<open>Requests, results and the outside world\<close>

text \<open>
  \<^verbatim>\<open>event.body\<close> is a string, \<^verbatim>\<open>null\<close> or \<^verbatim>\<open>undefined\<close>.  \<^verbatim>\<open>JSON.parse\<close>
  converts its argument to a string first (\<open>to_String\<close>).
\<close>

datatype raw_body = BodyUndefined | BodyNull | BodyText string

record event =
  httpMethod :: string
  event_body :: raw_body

definition to_String :: "raw_body \<Rightarrow> string" where
  "to_String b =
     (case b of BodyUndefined \<Rightarrow> ''undefined'' | BodyNull \<Rightarrow> ''null'' | BodyText s \<Rightarrow> s)"

text \<open>\<^verbatim>\<open>event.body || '{}'\<close>: an absent or empty body is replaced by \<^verbatim>\<open>'{}'\<close>.\<close>

definition body_or_empty_object :: "raw_body \<Rightarrow> string" where
  "body_or_empty_object b =
     (case b of
        BodyUndefined \<Rightarrow> ''{}''
      | BodyNull \<Rightarrow> ''{}''
      | BodyText s \<Rightarrow> if s \<noteq> [] then s else ''{}'')"

text \<open>
  What a handler returns.  \<open>body\<close> is the value the source passes to
  \<^verbatim>\<open>JSON.stringify\<close>; \<open>headers\<close> is empty where the source sets none.
\<close>

record result =
  statusCode :: nat
  headers :: "(string \<times> string) list"
  body :: json

text \<open>
  An invocation ends by returning a result, by falling off the end of the function
  (the promise resolves to \<^verbatim>\<open>undefined\<close>), or by throwing (the promise rejects).
\<close>

datatype completion = Returns result | ReturnsUndefined | Throws js_error

text \<open>The outbound request handed to \<^verbatim>\<open>fetch\<close>.\<close>

record fetch_request =
  url :: string
  req_method :: string
  req_headers :: "(string \<times> string) list"
  req_body :: json

text \<open>
  The observable effects of an invocation, in order: outbound calls and the
  durations (milliseconds) handed to \<^verbatim>\<open>setTimeout\<close>.
\<close>

datatype effect = Fetch fetch_request | Wait nat

text \<open>
  What one call of \<^verbatim>\<open>fetch\<close> does: the promise rejects, or a response arrives.
  A rejection is taken to carry an \<^verbatim>\<open>Error\<close> object, of which the handlers read
  the \<^verbatim>\<open>message\<close> only; \<open>Rejects m\<close> holds that message.  \<open>json_result\<close> is
  what \<^verbatim>\<open>response.json()\<close> gives: \<open>Inl\<close> the message of the error it rejects
  with, \<open>Inr\<close> the parsed body.  \<^verbatim>\<open>response.ok\<close> is, by the Fetch standard, a
  status in 200..299.  The calls to \<^verbatim>\<open>console\<close> are not modelled.
\<close>

record response =
  status :: nat
  json_result :: "string + json"

datatype fetch_outcome = Rejects string | Responds response

definition ok :: "response \<Rightarrow> bool" where
  "ok r = (200 \<le> status r \<and> status r \<le> 299)"

text \<open>
  \<^verbatim>\<open>!API_KEY\<close>: the environment variable is unset (\<open>None\<close>) or the empty string.
\<close>

definition key_missing :: "string option \<Rightarrow> bool" where
  "key_missing k = (case k of None \<Rightarrow> True | Some s \<Rightarrow> s = [])"

definition GEMINI_MODEL :: string where
  "GEMINI_MODEL = ''gemini-2.5-flash-preview-09-2025''"

text \<open>The template literal of both files for the upstream URL.\<close>

definition api_url :: "string option \<Rightarrow> string" where
  "api_url k =
     ''https://generativelanguage.googleapis.com/v1beta/models/'' @ GEMINI_MODEL @
     '':generateContent?key='' @ (case k of None \<Rightarrow> ''undefined'' | Some s \<Rightarrow> s)"

definition gemini_request :: "string option \<Rightarrow> json \<Rightarrow> fetch_request" where
  "gemini_request k payload =
     \<lparr>url = api_url k, req_method = ''POST'',
      req_headers = [(''Content-Type'', ''application/json'')],
      req_body = payload\<rparr>"

section \<open>The retrying handler (src/netlify/get-news.js)\<close>

definition maxRetries :: nat where
  "maxRetries = 3"

text \<open>
  The body of the \<^verbatim>\<open>try\<close> block (lines 58-80) on one outcome of \<^verbatim>\<open>fetch\<close>:
  \<open>Inl\<close> is the \<^verbatim>\<open>message\<close> of the error that reaches \<^verbatim>\<open>catch\<close>, \<open>Inr\<close> the
  result returned.
\<close>

definition try_attempt :: "fetch_outcome \<Rightarrow> string + result" where
  "try_attempt out =
     (case out of
        Rejects m \<Rightarrow> Inl m
      | Responds r \<Rightarrow>
          if \<not> ok r then
            (case json_result r of
               Inl m \<Rightarrow> Inl m
             | Inr errorBody \<Rightarrow> Inl (''Gemini API returned status '' @ string_of_nat (status r)))
          else
            (case json_result r of
               Inl m \<Rightarrow> Inl m
             | Inr geminiResponse \<Rightarrow>
                 Inr \<lparr>statusCode = 200,
                      headers = [(''Content-Type'', ''application/json'')],
                      body = geminiResponse\<rparr>))"

definition retries_exhausted :: "string \<Rightarrow> result" where
  "retries_exhausted message =
     \<lparr>statusCode = 502, headers = [],
      body = JObj [(''error'', JStr ''Failed to communicate with the Gemini API after multiple retries.''),
                   (''details'', JStr message)]\<rparr>"

text \<open>
  The \<^verbatim>\<open>for\<close> loop of lines 57-99, from the given attempt on.  \<open>net k\<close> is the
  outcome of the invocation's \<open>k\<close>-th outbound call; the loop makes one call per
  attempt.
\<close>

function retry_loop ::
  "nat \<Rightarrow> (nat \<Rightarrow> fetch_outcome) \<Rightarrow> fetch_request \<Rightarrow> nat \<Rightarrow> completion \<times> effect list" where
  "retry_loop mx net req attempt =
     (if attempt < mx then
        (case try_attempt (net attempt) of
           Inr res \<Rightarrow> (Returns res, [Fetch req])
         | Inl message \<Rightarrow>
             if attempt < mx - 1 then
               (case retry_loop mx net req (attempt + 1) of
                  (c, tr) \<Rightarrow> (c, Fetch req # Wait (2 ^ attempt * 1000) # tr))
             else (Returns (retries_exhausted message), [Fetch req]))
      else (ReturnsUndefined, []))"
  by pat_completeness auto
termination
  by (relation "measure (\<lambda>(mx, net, req, attempt). mx - attempt)") auto

declare retry_loop.simps [simp del]

definition error_result :: "nat \<Rightarrow> string \<Rightarrow> result" where
  "error_result code msg =
     \<lparr>statusCode = code, headers = [], body = JObj [(''error'', JStr msg)]\<rparr>"

definition get_news_handler ::
  "string option \<Rightarrow> (string \<Rightarrow> js_error + json) \<Rightarrow> (nat \<Rightarrow> fetch_outcome) \<Rightarrow> event
     \<Rightarrow> completion \<times> effect list" where
  "get_news_handler API_KEY JSON_parse net ev =
     (if httpMethod ev \<noteq> ''POST'' then
        (Returns (error_result 405 ''Method Not Allowed''), [])
      else if key_missing API_KEY then
        (Returns (error_result 500 ''Server configuration error: API key missing.''), [])
      else
        (case JSON_parse (to_String (event_body ev)) of
           Inl e \<Rightarrow> (Returns (error_result 400 ''Invalid JSON body provided.''), [])
         | Inr payload \<Rightarrow>
             if \<not> truthy payload then
               (Returns (error_result 400 ''Missing required 'contents' in payload.''), [])
             else
               (case get_prop payload ''contents'' of
                  Inl e \<Rightarrow> (Throws e, [])
                | Inr contents \<Rightarrow>
                    if \<not> truthy_opt contents then
                      (Returns (error_result 400 ''Missing required 'contents' in payload.''), [])
                    else retry_loop maxRetries net (gemini_request API_KEY payload) 0)))"

section \<open>The single-attempt handler (src/unnamed/part_000)\<close>

definition fetch_userQuery :: string where
  "fetch_userQuery = ''What are the top 5 current finance and business news stories?''"

definition fetch_systemPrompt :: string where
  "fetch_systemPrompt =
     ''Act as a concise news aggregator. Provide the title and full body of the top 5 finance stories. Format the output as clean markdown, separating each story clearly using titles and paragraphs.''"

definition summarize_systemPrompt :: string where
  "summarize_systemPrompt =
     ''You are a highly efficient editor. Condense the provided financial news content into a single, cohesive, jargon-free paragraph. The summary must be 60 words or less. Do not use a title, introduction, or citation placeholders.''"

text \<open>\<^verbatim>\<open>[{ "google_search": {} }]\<close>, line 31.\<close>

definition google_search_tools :: "json list" where
  "google_search_tools = [JObj [(''google_search'', JObj [])]]"

text \<open>
  Lines 45-52: the payload as \<^verbatim>\<open>JSON.stringify\<close> serialises it.  \<open>userQuery\<close> may be
  \<^verbatim>\<open>undefined\<close> (a summarize request without \<^verbatim>\<open>textToSummarize\<close>), and then
  the \<^verbatim>\<open>text\<close> property is left out.
\<close>

definition build_payload :: "json option \<Rightarrow> string \<Rightarrow> json list \<Rightarrow> json" where
  "build_payload userQuery systemPrompt tools =
     JObj ([(''contents'', JArr [JObj [(''parts'', JArr [JObj (field ''text'' userQuery)])]]),
            (''systemInstruction'', JObj [(''parts'', JArr [JObj [(''text'', JStr systemPrompt)]])])]
           @ (if length tools > 0 then [(''tools'', JArr tools)] else []))"

text \<open>Lines 43 and 54-84: one outbound call, no retry.\<close>

definition call_gemini ::
  "string option \<Rightarrow> (nat \<Rightarrow> fetch_outcome) \<Rightarrow> json \<Rightarrow> completion \<times> effect list" where
  "call_gemini API_KEY net payload =
     (let internal = error_result 500 ''Internal server error during API proxy.'';
          tr = [Fetch (gemini_request API_KEY payload)]
      in case net 0 of
           Rejects m \<Rightarrow> (Returns internal, tr)
         | Responds r \<Rightarrow>
             if \<not> ok r then
               (case json_result r of
                  Inl m \<Rightarrow> (Returns internal, tr)
                | Inr errorBody \<Rightarrow>
                    (Returns \<lparr>statusCode = status r, headers = [],
                              body = JObj [(''error'', JStr (''External API call failed: '' @ string_of_nat (status r))),
                                           (''details'', errorBody)]\<rparr>, tr))
             else
               (case json_result r of
                  Inl m \<Rightarrow> (Returns internal, tr)
                | Inr res \<Rightarrow> (Returns \<lparr>statusCode = 200, headers = [], body = res\<rparr>, tr)))"

definition part_000_handler ::
  "string option \<Rightarrow> (string \<Rightarrow> js_error + json) \<Rightarrow> (nat \<Rightarrow> fetch_outcome) \<Rightarrow> event
     \<Rightarrow> completion \<times> effect list" where
  "part_000_handler API_KEY JSON_parse net ev =
     (if key_missing API_KEY then
        (Returns (error_result 500 ''API Key is not configured on the server.''), [])
      else
        (case JSON_parse (body_or_empty_object (event_body ev)) of
           Inl e \<Rightarrow> (Throws e, [])
         | Inr b \<Rightarrow>
             (case get_prop b ''type'' of
                Inl e \<Rightarrow> (Throws e, [])
              | Inr apiType \<Rightarrow>
                  if apiType = Some (JStr ''fetch'') then
                    call_gemini API_KEY net
                      (build_payload (Some (JStr fetch_userQuery)) fetch_systemPrompt google_search_tools)
                  else if apiType = Some (JStr ''summarize'') then
                    (case get_prop b ''textToSummarize'' of
                       Inl e \<Rightarrow> (Throws e, [])
                     | Inr userQuery \<Rightarrow>
                         call_gemini API_KEY net (build_payload userQuery summarize_systemPrompt []))
                  else (Returns (error_result 400 ''Invalid API type specified.''), []))))"

section \<open>Vocabulary of the properties\<close>

text \<open>
  An outbound attempt fails when \<^verbatim>\<open>fetch\<close> rejects, when the status is not 2xx, or
  when the body of the response cannot be read as JSON.
\<close>

definition upstream_fails :: "fetch_outcome \<Rightarrow> bool" where
  "upstream_fails out =
     (case out of Rejects m \<Rightarrow> True | Responds r \<Rightarrow> \<not> ok r \<or> isl (json_result r))"

text \<open>
  The payloads that pass the check of get-news.js, line 44: the payload is truthy and
  so is its \<^verbatim>\<open>contents\<close>.
\<close>

definition accepted_payload :: "json \<Rightarrow> bool" where
  "accepted_payload payload =
     (truthy payload \<and>
      (case get_prop payload ''contents'' of Inl e \<Rightarrow> False | Inr c \<Rightarrow> truthy_opt c))"

text \<open>The number of outbound calls in a trace.\<close>

primrec outbound_calls :: "effect list \<Rightarrow> nat" where
  "outbound_calls [] = 0"
| "outbound_calls (e # es) = (case e of Fetch r \<Rightarrow> Suc (outbound_calls es) | Wait n \<Rightarrow> outbound_calls es)"



text \<open>
  \<^verbatim>\<open>JSON.parse\<close> belongs to the platform and is a parameter of both handlers.
  \<open>parse_table\<close> is \<^verbatim>\<open>JSON.parse\<close> on the request bodies used as concrete inputs
  below; a text outside the table is made to throw, which is what \<^verbatim>\<open>JSON.parse\<close>
  does on the three other texts used: the empty text, \<^verbatim>\<open>undefined\<close> and \<^verbatim>\<open>not json\<close>.
\<close>

definition parse_table :: "string \<Rightarrow> js_error + json" where
  \<open>parse_table s =
     (if s = ''{}'' then Inr (JObj [])
      else if s = ''null'' then Inr JNull
      else if s = ''{"contents":[]}'' then Inr (JObj [(''contents'', JArr [])])
      else if s = ''{"contents":[{"parts":[{"text":"hi"}]}]}'' then
        Inr (JObj [(''contents'', JArr [JObj [(''parts'', JArr [JObj [(''text'', JStr ''hi'')]])]])])
      else if s = ''{"type":"fetch"}'' then Inr (JObj [(''type'', JStr ''fetch'')])
      else if s = ''{"type":"summarize"}'' then Inr (JObj [(''type'', JStr ''summarize'')])
      else if s = ''{"type":"summarize","textToSummarize":"Markets rose."}'' then
        Inr (JObj [(''type'', JStr ''summarize''), (''textToSummarize'', JStr ''Markets rose.'')])
      else Inl (SyntaxError ''Unexpected token''))\<close>

definition post :: "string \<Rightarrow> event" where
  "post s = \<lparr>httpMethod = ''POST'', event_body = BodyText s\<rparr>"

definition hi_payload :: json where
  "hi_payload = JObj [(''contents'', JArr [JObj [(''parts'', JArr [JObj [(''text'', JStr ''hi'')]])]])]"

definition hi_event :: event where
  \<open>hi_event = post ''{"contents":[{"parts":[{"text":"hi"}]}]}''\<close>

text \<open>Two upstreams used as concrete inputs: one fails twice and then answers, one always fails.\<close>

definition fails_twice_then_ok :: "nat \<Rightarrow> fetch_outcome" where
  "fails_twice_then_ok k =
     (if k = 0 then
        Responds \<lparr>status = 503, json_result = Inr (JObj [(''error'', JStr ''overloaded'')])\<rparr>
      else if k = 1 then Rejects ''fetch failed''
      else Responds \<lparr>status = 200, json_result = Inr (JObj [(''candidates'', JArr [])])\<rparr>)"

definition always_fails :: "nat \<Rightarrow> fetch_outcome" where
  "always_fails k =
     (if k = 0 then Rejects ''fetch failed''
      else if k = 1 then
        Responds \<lparr>status = 200, json_result = Inl ''Unexpected end of JSON input''\<rparr>
      else Responds \<lparr>status = 503, json_result = Inr (JObj [(''error'', JStr ''overloaded'')])\<rparr>)"

text \<open>
  The \<^verbatim>\<open>message\<close> of the error that reaches \<^verbatim>\<open>catch\<close> (get-news.js, line 82)
  when an attempt fails: that of the error \<^verbatim>\<open>fetch\<close> or \<^verbatim>\<open>response.json()\<close>
  rejects with (lines 59, 67, 73), or the text of line 69.
\<close>

definition failure_message :: "fetch_outcome \<Rightarrow> string" where
  "failure_message out =
     (case out of
        Rejects m \<Rightarrow> m
      | Responds r \<Rightarrow>
          (case json_result r of
             Inl m \<Rightarrow> m
           | Inr b \<Rightarrow> ''Gemini API returned status '' @ string_of_nat (status r)))"

definition always_503 :: "nat \<Rightarrow> fetch_outcome" where
  "always_503 k =
     Responds \<lparr>status = 503, json_result = Inr (JObj [(''error'', JStr ''overloaded'')])\<rparr>"

definition always_ok :: "nat \<Rightarrow> fetch_outcome" where
  "always_ok k =
     Responds \<lparr>status = 200, json_result = Inr (JObj [(''candidates'', JArr [])])\<rparr>"

text \<open>The payload part_000 sends for a \<^verbatim>\<open>fetch\<close> request, written out.\<close>

definition fetch_payload :: json where
  "fetch_payload =
     JObj [(''contents'', JArr [JObj [(''parts'', JArr [JObj [(''text'', JStr fetch_userQuery)]])]]),
           (''systemInstruction'',
            JObj [(''parts'', JArr [JObj [(''text'', JStr fetch_systemPrompt)]])]),
           (''tools'', JArr [JObj [(''google_search'', JObj [])]])]"


text \<open>The payload part_000 sends for a \<^verbatim>\<open>summarize\<close> request, written out.\<close>

definition summarize_payload :: "json option \<Rightarrow> json" where
  "summarize_payload userQuery =
     JObj [(''contents'', JArr [JObj [(''parts'', JArr [JObj (field ''text'' userQuery)])]]),
           (''systemInstruction'',
            JObj [(''parts'', JArr [JObj [(''text'', JStr summarize_systemPrompt)]])])]"

text \<open>The body \<^verbatim>\<open>{"contents":[]}\<close>, parsed.\<close>

definition empty_contents_payload :: json where
  "empty_contents_payload = JObj [(''contents'', JArr [])]"

text \<open>The bodies of the outbound requests of a trace, in order.\<close>

primrec sent_payloads :: "effect list \<Rightarrow> json list" where
  "sent_payloads [] = []"
| "sent_payloads (e # es) =
     (case e of Fetch r \<Rightarrow> req_body r # sent_payloads es | Wait n \<Rightarrow> sent_payloads es)"

text \<open>An upstream whose answer cannot be read as JSON.\<close>

definition unreadable_body :: "nat \<Rightarrow> fetch_outcome" where
  "unreadable_body k =
     Responds \<lparr>status = 502, json_result = Inl ''Unexpected token < in JSON at position 0''\<rparr>"

section \<open>The retry loop\<close>

lemma retry_loop_success:
  "a < mx \<Longrightarrow> try_attempt (net a) = Inr res \<Longrightarrow>
   retry_loop mx net req a = (Returns res, [Fetch req])"
  by (simp add: retry_loop.simps[of mx net req a])

lemma retry_loop_last:
  "Suc a = mx \<Longrightarrow> try_attempt (net a) = Inl m \<Longrightarrow>
   retry_loop mx net req a = (Returns (retries_exhausted m), [Fetch req])"
  by (auto simp add: retry_loop.simps[of mx net req a])

lemma retry_loop_again:
  "Suc a < mx \<Longrightarrow> try_attempt (net a) = Inl m \<Longrightarrow>
   retry_loop mx net req a =
     (fst (retry_loop mx net req (Suc a)),
      Fetch req # Wait (2 ^ a * 1000) # snd (retry_loop mx net req (Suc a)))"
  by (auto simp add: retry_loop.simps[of mx net req a] split: prod.splits)

text \<open>The loop with the source's bound of three attempts, written out.\<close>

lemma retry_loop_unrolled:
  "retry_loop 3 net req 0 =
     (case try_attempt (net 0) of
        Inr res \<Rightarrow> (Returns res, [Fetch req])
      | Inl m0 \<Rightarrow>
          (case try_attempt (net 1) of
             Inr res \<Rightarrow> (Returns res, [Fetch req, Wait 1000, Fetch req])
           | Inl m1 \<Rightarrow>
               (case try_attempt (net 2) of
                  Inr res \<Rightarrow>
                    (Returns res, [Fetch req, Wait 1000, Fetch req, Wait 2000, Fetch req])
                | Inl m2 \<Rightarrow>
                    (Returns (retries_exhausted m2),
                     [Fetch req, Wait 1000, Fetch req, Wait 2000, Fetch req]))))"
proof -
  have third: "retry_loop 3 net req (Suc (Suc 0)) =
     (case try_attempt (net 2) of
        Inr res \<Rightarrow> (Returns res, [Fetch req])
      | Inl m2 \<Rightarrow> (Returns (retries_exhausted m2), [Fetch req]))"
    by (simp add: retry_loop_success retry_loop_last numeral_2_eq_2 numeral_3_eq_3
        split: sum.splits)
  have second: "retry_loop 3 net req (Suc 0) =
     (case try_attempt (net 1) of
        Inr res \<Rightarrow> (Returns res, [Fetch req])
      | Inl m1 \<Rightarrow> (fst (retry_loop 3 net req (Suc (Suc 0))),
                    Fetch req # Wait 2000 # snd (retry_loop 3 net req (Suc (Suc 0)))))"
    by (simp add: retry_loop_success retry_loop_again split: sum.splits)
  have first: "retry_loop 3 net req 0 =
     (case try_attempt (net 0) of
        Inr res \<Rightarrow> (Returns res, [Fetch req])
      | Inl m0 \<Rightarrow> (fst (retry_loop 3 net req (Suc 0)),
                    Fetch req # Wait 1000 # snd (retry_loop 3 net req (Suc 0))))"
    by (simp add: retry_loop_success retry_loop_again split: sum.splits)
  show ?thesis
    unfolding first second third by (simp split: sum.splits)
qed

lemma upstream_fails_iff: "upstream_fails out \<longleftrightarrow> (\<exists>m. try_attempt out = Inl m)"
  by (auto simp: upstream_fails_def try_attempt_def split: fetch_outcome.splits sum.splits)

lemma try_attempt_success:
  "ok r \<Longrightarrow> json_result r = Inr g \<Longrightarrow>
   try_attempt (Responds r) =
     Inr \<lparr>statusCode = 200, headers = [(''Content-Type'', ''application/json'')], body = g\<rparr>"
  by (simp add: try_attempt_def)

text \<open>A request that passes the three checks of lines 16-49 enters the loop.\<close>

lemma get_news_dispatch:
  "httpMethod ev = ''POST'' \<Longrightarrow> \<not> key_missing API_KEY \<Longrightarrow>
   JSON_parse (to_String (event_body ev)) = Inr payload \<Longrightarrow> accepted_payload payload \<Longrightarrow>
   get_news_handler API_KEY JSON_parse net ev =
     retry_loop 3 net (gemini_request API_KEY payload) 0"
  by (auto simp: get_news_handler_def accepted_payload_def maxRetries_def split: sum.splits)

lemma parse_table_hi:
  \<open>parse_table ''{"contents":[{"parts":[{"text":"hi"}]}]}'' = Inr hi_payload\<close>
  by (simp add: parse_table_def hi_payload_def)

lemma accepted_hi_payload: "accepted_payload hi_payload"
  by (simp add: accepted_payload_def hi_payload_def truthy_def truthy_opt_def get_prop_def)

section \<open>The single attempt of part_000\<close>

lemma call_gemini_trace: "snd (call_gemini k net p) = [Fetch (gemini_request k p)]"
  by (simp add: call_gemini_def Let_def split: fetch_outcome.splits sum.splits)

lemma call_gemini_fst_key: "fst (call_gemini k net p) = fst (call_gemini k' net p)"
  by (simp add: call_gemini_def Let_def split: fetch_outcome.splits sum.splits)

lemma get_prop_other: "get_prop b k = Inr x \<Longrightarrow> \<exists>y. get_prop b k' = Inr y"
  by (cases b) (simp_all add: get_prop_def)

lemma call_gemini_non_2xx:
  "net 0 = Responds r \<Longrightarrow> \<not> ok r \<Longrightarrow> json_result r = Inr errorBody \<Longrightarrow>
   call_gemini k net p =
     (Returns \<lparr>statusCode = status r, headers = [],
               body = JObj [(''error'', JStr (''External API call failed: '' @ string_of_nat (status r))),
                            (''details'', errorBody)]\<rparr>,
      [Fetch (gemini_request k p)])"
  by (simp add: call_gemini_def)

lemma call_gemini_rejects:
  "net 0 = Rejects m \<Longrightarrow>
   call_gemini k net p =
     (Returns \<lparr>statusCode = 500, headers = [],
               body = JObj [(''error'', JStr ''Internal server error during API proxy.'')]\<rparr>,
      [Fetch (gemini_request k p)])"
  by (simp add: call_gemini_def error_result_def)

lemma call_gemini_unreadable:
  "net 0 = Responds r \<Longrightarrow> json_result r = Inl m \<Longrightarrow>
   call_gemini k net p =
     (Returns \<lparr>statusCode = 500, headers = [],
               body = JObj [(''error'', JStr ''Internal server error during API proxy.'')]\<rparr>,
      [Fetch (gemini_request k p)])"
  by (simp add: call_gemini_def error_result_def Let_def)

text \<open>A request of a recognised type reaches the outbound call.\<close>

lemma part_000_dispatch:
  assumes "\<not> key_missing API_KEY"
    and "JSON_parse (body_or_empty_object (event_body ev)) = Inr b"
    and "get_prop b ''type'' = Inr (Some (JStr t))"
    and "t = ''fetch'' \<or> t = ''summarize''"
  shows "\<exists>p. part_000_handler API_KEY JSON_parse net ev = call_gemini API_KEY net p"
proof -
  from assms(3) obtain q where q: "get_prop b ''textToSummarize'' = Inr q"
    using get_prop_other by blast
  from assms(4) show ?thesis
  proof
    assume "t = ''fetch''"
    with assms(1-3) show ?thesis by (auto simp: part_000_handler_def)
  next
    assume "t = ''summarize''"
    with assms(1-3) q show ?thesis by (auto simp: part_000_handler_def)
  qed
qed

section \<open>Properties of the retrying dispatcher\<close>

text \<open>
  C2.  In get-news.js, when a request passes validation, the first two outbound
  attempts fail and the third succeeds, the handler returns status 200 with the body
  of the third response.  Exactly three outbound calls are made, one after the other,
  with a wait of 1000 ms (\<open>2 ^ 0\<close> seconds) after the first and of 2000 ms
  (\<open>2 ^ 1\<close> seconds) after the second.
\<close>

theorem get_news_third_attempt_succeeds:
  assumes "httpMethod ev = ''POST''" and "\<not> key_missing API_KEY"
    and "JSON_parse (to_String (event_body ev)) = Inr payload" and "accepted_payload payload"
    and "upstream_fails (net 0)" and "upstream_fails (net 1)"
    and "net 2 = Responds r" and "ok r" and "json_result r = Inr g"
  shows "get_news_handler API_KEY JSON_parse net ev =
           (Returns \<lparr>statusCode = 200, headers = [(''Content-Type'', ''application/json'')],
                     body = g\<rparr>,
            [Fetch (gemini_request API_KEY payload), Wait 1000,
             Fetch (gemini_request API_KEY payload), Wait 2000,
             Fetch (gemini_request API_KEY payload)])
         \<and> outbound_calls (snd (get_news_handler API_KEY JSON_parse net ev)) = 3"
proof -
  from assms(5,6) obtain m0 m1
    where "try_attempt (net 0) = Inl m0" and "try_attempt (net 1) = Inl m1"
    by (auto simp: upstream_fails_iff)
  moreover have "try_attempt (net 2) =
      Inr \<lparr>statusCode = 200, headers = [(''Content-Type'', ''application/json'')], body = g\<rparr>"
    using assms(7-9) by (simp add: try_attempt_success)
  ultimately show ?thesis
    using assms(1-4) by (simp add: get_news_dispatch retry_loop_unrolled)
qed

theorem get_news_third_attempt_succeeds_witness:
  "get_news_handler (Some ''secret-key'') parse_table fails_twice_then_ok hi_event =
     (Returns \<lparr>statusCode = 200, headers = [(''Content-Type'', ''application/json'')],
               body = JObj [(''candidates'', JArr [])]\<rparr>,
      [Fetch (gemini_request (Some ''secret-key'') hi_payload), Wait 1000,
       Fetch (gemini_request (Some ''secret-key'') hi_payload), Wait 2000,
       Fetch (gemini_request (Some ''secret-key'') hi_payload)])
   \<and> outbound_calls
        (snd (get_news_handler (Some ''secret-key'') parse_table fails_twice_then_ok hi_event)) = 3"
  using get_news_third_attempt_succeeds [of hi_event "Some ''secret-key''" parse_table hi_payload
      fails_twice_then_ok
      "\<lparr>status = 200, json_result = Inr (JObj [(''candidates'', JArr [])])\<rparr>"
      "JObj [(''candidates'', JArr [])]"]
  by (simp add: hi_event_def post_def key_missing_def parse_table_hi accepted_hi_payload
      upstream_fails_def fails_twice_then_ok_def ok_def to_String_def)

lemma string_of_nat_503: "string_of_nat 503 = ''503''"
  by code_simp

lemma try_attempt_failure:
  "upstream_fails out \<Longrightarrow> try_attempt out = Inl (failure_message out)"
  by (auto simp: upstream_fails_def try_attempt_def failure_message_def
      split: fetch_outcome.splits sum.splits)

lemma try_attempt_status: "try_attempt out = Inr res \<Longrightarrow> statusCode res = 200"
  by (auto simp: try_attempt_def split: fetch_outcome.splits sum.splits if_splits)

lemma truthy_get_prop: "truthy v \<Longrightarrow> \<exists>c. get_prop v k = Inr c"
  by (cases v) (simp_all add: truthy_def get_prop_def)

text \<open>
  C1, as amended.  In get-news.js, when a request passes validation and each of the
  three outbound attempts fails (the call rejects, the status is not 2xx, or the body
  cannot be read as JSON, whatever the status), the handler returns status 502 with an
  \<^verbatim>\<open>error\<close> field and a \<^verbatim>\<open>details\<close> field equal to the message of the third
  failure, after exactly three outbound calls.  In part_000, a request with a
  configured credential whose \<^verbatim>\<open>type\<close> is \<^verbatim>\<open>fetch\<close> or \<^verbatim>\<open>summarize\<close> makes
  exactly one outbound call, with no retry: when the answer has a status that is not
  2xx and a body that reads as JSON, the handler returns that status, with an
  \<^verbatim>\<open>error\<close> field and the upstream's body as \<^verbatim>\<open>details\<close>; when the call
  rejects or the body cannot be read as JSON, it returns status 500 with an
  \<^verbatim>\<open>error\<close> field.
\<close>

theorem all_attempts_fail:
  "(httpMethod ev = ''POST'' \<longrightarrow> \<not> key_missing API_KEY \<longrightarrow>
      JSON_parse (to_String (event_body ev)) = Inr payload \<longrightarrow> accepted_payload payload \<longrightarrow>
      upstream_fails (net 0) \<longrightarrow> upstream_fails (net 1) \<longrightarrow> upstream_fails (net 2) \<longrightarrow>
      get_news_handler API_KEY JSON_parse net ev =
        (Returns \<lparr>statusCode = 502, headers = [],
                  body = JObj [(''error'', JStr ''Failed to communicate with the Gemini API after multiple retries.''),
                               (''details'', JStr (failure_message (net 2)))]\<rparr>,
         [Fetch (gemini_request API_KEY payload), Wait 1000,
          Fetch (gemini_request API_KEY payload), Wait 2000,
          Fetch (gemini_request API_KEY payload)])
      \<and> outbound_calls (snd (get_news_handler API_KEY JSON_parse net ev)) = 3)
   \<and> (\<not> key_missing API_KEY \<longrightarrow>
      JSON_parse (body_or_empty_object (event_body ev')) = Inr b \<longrightarrow>
      get_prop b ''type'' = Inr (Some (JStr t)) \<longrightarrow> (t = ''fetch'' \<or> t = ''summarize'') \<longrightarrow>
      outbound_calls (snd (part_000_handler API_KEY JSON_parse net' ev')) = 1
      \<and> (net' 0 = Responds r \<longrightarrow> \<not> ok r \<longrightarrow> json_result r = Inr errorBody \<longrightarrow>
           fst (part_000_handler API_KEY JSON_parse net' ev') =
             Returns \<lparr>statusCode = status r, headers = [],
                      body = JObj [(''error'', JStr (''External API call failed: '' @ string_of_nat (status r))),
                                   (''details'', errorBody)]\<rparr>)
      \<and> (net' 0 = Rejects m \<or> (net' 0 = Responds r \<and> json_result r = Inl m) \<longrightarrow>
           fst (part_000_handler API_KEY JSON_parse net' ev') =
             Returns \<lparr>statusCode = 500, headers = [],
                      body = JObj [(''error'', JStr ''Internal server error during API proxy.'')]\<rparr>))"
proof (intro conjI impI)
  assume "httpMethod ev = ''POST''" "\<not> key_missing API_KEY"
    "JSON_parse (to_String (event_body ev)) = Inr payload" "accepted_payload payload"
    "upstream_fails (net 0)" "upstream_fails (net 1)" "upstream_fails (net 2)"
  then have loop: "get_news_handler API_KEY JSON_parse net ev =
        (Returns \<lparr>statusCode = 502, headers = [],
                  body = JObj [(''error'', JStr ''Failed to communicate with the Gemini API after multiple retries.''),
                               (''details'', JStr (failure_message (net 2)))]\<rparr>,
         [Fetch (gemini_request API_KEY payload), Wait 1000,
          Fetch (gemini_request API_KEY payload), Wait 2000,
          Fetch (gemini_request API_KEY payload)])"
    by (simp add: get_news_dispatch retry_loop_unrolled try_attempt_failure retries_exhausted_def)
  then show "get_news_handler API_KEY JSON_parse net ev =
        (Returns \<lparr>statusCode = 502, headers = [],
                  body = JObj [(''error'', JStr ''Failed to communicate with the Gemini API after multiple retries.''),
                               (''details'', JStr (failure_message (net 2)))]\<rparr>,
         [Fetch (gemini_request API_KEY payload), Wait 1000,
          Fetch (gemini_request API_KEY payload), Wait 2000,
          Fetch (gemini_request API_KEY payload)])" .
  from loop show "outbound_calls (snd (get_news_handler API_KEY JSON_parse net ev)) = 3"
    by simp
next
  assume a: "\<not> key_missing API_KEY" "JSON_parse (body_or_empty_object (event_body ev')) = Inr b"
    "get_prop b ''type'' = Inr (Some (JStr t))" "t = ''fetch'' \<or> t = ''summarize''"
  then obtain p where p: "part_000_handler API_KEY JSON_parse net' ev' = call_gemini API_KEY net' p"
    using part_000_dispatch by blast
  show "outbound_calls (snd (part_000_handler API_KEY JSON_parse net' ev')) = 1"
    by (simp add: p call_gemini_trace)
  {
    assume "net' 0 = Responds r" "\<not> ok r" "json_result r = Inr errorBody"
    then show "fst (part_000_handler API_KEY JSON_parse net' ev') =
             Returns \<lparr>statusCode = status r, headers = [],
                      body = JObj [(''error'', JStr (''External API call failed: '' @ string_of_nat (status r))),
                                   (''details'', errorBody)]\<rparr>"
      by (simp add: p call_gemini_non_2xx)
  }
  {
    assume "net' 0 = Rejects m \<or> (net' 0 = Responds r \<and> json_result r = Inl m)"
    then show "fst (part_000_handler API_KEY JSON_parse net' ev') =
             Returns \<lparr>statusCode = 500, headers = [],
                      body = JObj [(''error'', JStr ''Internal server error during API proxy.'')]\<rparr>"
      by (auto simp: p call_gemini_rejects call_gemini_unreadable)
  }
qed

theorem all_attempts_fail_witness:
  \<open>get_news_handler (Some ''secret-key'') parse_table always_fails hi_event =
     (Returns \<lparr>statusCode = 502, headers = [],
               body = JObj [(''error'', JStr ''Failed to communicate with the Gemini API after multiple retries.''),
                            (''details'', JStr ''Gemini API returned status 503'')]\<rparr>,
      [Fetch (gemini_request (Some ''secret-key'') hi_payload), Wait 1000,
       Fetch (gemini_request (Some ''secret-key'') hi_payload), Wait 2000,
       Fetch (gemini_request (Some ''secret-key'') hi_payload)])
   \<and> outbound_calls
        (snd (get_news_handler (Some ''secret-key'') parse_table always_fails hi_event)) = 3
   \<and> outbound_calls
        (snd (part_000_handler (Some ''secret-key'') parse_table always_503
               (post ''{"type":"fetch"}''))) = 1
   \<and> fst (part_000_handler (Some ''secret-key'') parse_table always_503
             (post ''{"type":"fetch"}'')) =
       Returns \<lparr>statusCode = 503, headers = [],
                body = JObj [(''error'', JStr ''External API call failed: 503''),
                             (''details'', JObj [(''error'', JStr ''overloaded'')])]\<rparr>
   \<and> fst (part_000_handler (Some ''secret-key'') parse_table always_fails
             (post ''{"type":"summarize"}'')) =
       Returns \<lparr>statusCode = 500, headers = [],
                body = JObj [(''error'', JStr ''Internal server error during API proxy.'')]\<rparr>
   \<and> fst (part_000_handler (Some ''secret-key'') parse_table unreadable_body
             (post ''{"type":"fetch"}'')) =
       Returns \<lparr>statusCode = 500, headers = [],
                body = JObj [(''error'', JStr ''Internal server error during API proxy.'')]\<rparr>\<close>
  using
    all_attempts_fail [of hi_event "Some ''secret-key''" parse_table hi_payload always_fails
      \<open>post ''{"type":"fetch"}''\<close> "JObj [(''type'', JStr ''fetch'')]" "''fetch''" always_503
      "\<lparr>status = 503, json_result = Inr (JObj [(''error'', JStr ''overloaded'')])\<rparr>"
      "JObj [(''error'', JStr ''overloaded'')]" "''none''"]
    all_attempts_fail [of hi_event "Some ''secret-key''" parse_table hi_payload always_fails
      \<open>post ''{"type":"summarize"}''\<close> "JObj [(''type'', JStr ''summarize'')]" "''summarize''"
      always_fails "\<lparr>status = 0, json_result = Inl []\<rparr>" JNull "''fetch failed''"]
    all_attempts_fail [of hi_event "Some ''secret-key''" parse_table hi_payload always_fails
      \<open>post ''{"type":"fetch"}''\<close> "JObj [(''type'', JStr ''fetch'')]" "''fetch''" unreadable_body
      "\<lparr>status = 502, json_result = Inl ''Unexpected token < in JSON at position 0''\<rparr>"
      JNull "''Unexpected token < in JSON at position 0''"]
  by (simp add: hi_event_def post_def key_missing_def parse_table_hi accepted_hi_payload
      upstream_fails_def always_fails_def always_503_def unreadable_body_def ok_def
      to_String_def failure_message_def string_of_nat_503 body_or_empty_object_def
      parse_table_def get_prop_def hi_payload_def accepted_payload_def truthy_def
      truthy_opt_def)

text \<open>
  The claim as stated fails on part_000: with an upstream that always answers 503, the
  handler makes one outbound call and returns status 503 with the upstream's body as
  \<^verbatim>\<open>details\<close>.
\<close>

theorem part_000_forwards_upstream_status:
  \<open>(\<forall>k. upstream_fails (always_503 k)) \<and>
   part_000_handler (Some ''secret-key'') parse_table always_503 (post ''{"type":"fetch"}'') =
     (Returns \<lparr>statusCode = 503, headers = [],
               body = JObj [(''error'', JStr ''External API call failed: 503''),
                            (''details'', JObj [(''error'', JStr ''overloaded'')])]\<rparr>,
      [Fetch (gemini_request (Some ''secret-key'') fetch_payload)])\<close>
  by (simp add: upstream_fails_def always_503_def ok_def part_000_handler_def key_missing_def
      post_def body_or_empty_object_def parse_table_def get_prop_def call_gemini_def
      build_payload_def google_search_tools_def field_def fetch_payload_def string_of_nat_503
      error_result_def)

section \<open>Totality and the unparseable body\<close>

text \<open>
  C3, as amended.  The handler of get-news.js never throws and never ends without a
  result: every invocation returns a result whose status is 200, 400, 405, 500 or 502.
  For a POST request with a configured credential whose body \<^verbatim>\<open>JSON.parse\<close>
  rejects, it returns status 400 and makes no outbound call.
\<close>

theorem get_news_always_returns:
  "(\<exists>res. fst (get_news_handler API_KEY JSON_parse net ev) = Returns res \<and>
          statusCode res \<in> {200, 400, 405, 500, 502})
   \<and> (httpMethod ev = ''POST'' \<longrightarrow> \<not> key_missing API_KEY \<longrightarrow>
        JSON_parse (to_String (event_body ev)) = Inl e \<longrightarrow>
        get_news_handler API_KEY JSON_parse net ev =
          (Returns \<lparr>statusCode = 400, headers = [],
                    body = JObj [(''error'', JStr ''Invalid JSON body provided.'')]\<rparr>, []))"
proof
  have loop: "\<exists>res. fst (retry_loop 3 net req 0) = Returns res \<and> statusCode res \<in> {200, 502}"
    for req
    by (auto simp: retry_loop_unrolled retries_exhausted_def split: sum.splits
        dest: try_attempt_status)
  show "\<exists>res. fst (get_news_handler API_KEY JSON_parse net ev) = Returns res \<and>
          statusCode res \<in> {200, 400, 405, 500, 502}"
  proof (cases "httpMethod ev = ''POST'' \<and> \<not> key_missing API_KEY")
    case False
    then show ?thesis by (auto simp: get_news_handler_def error_result_def)
  next
    case guard: True
    show ?thesis
    proof (cases "JSON_parse (to_String (event_body ev))")
      case (Inl e)
      with guard show ?thesis by (simp add: get_news_handler_def error_result_def)
    next
      case (Inr payload)
      show ?thesis
      proof (cases "accepted_payload payload")
        case True
        with guard Inr loop [of "gemini_request API_KEY payload"] show ?thesis
          by (auto simp: get_news_dispatch)
      next
        case False
        with guard Inr truthy_get_prop [of payload "''contents''"] show ?thesis
          by (auto simp: get_news_handler_def accepted_payload_def error_result_def
              split: sum.splits)
      qed
    qed
  qed
next
  show "httpMethod ev = ''POST'' \<longrightarrow> \<not> key_missing API_KEY \<longrightarrow>
        JSON_parse (to_String (event_body ev)) = Inl e \<longrightarrow>
        get_news_handler API_KEY JSON_parse net ev =
          (Returns \<lparr>statusCode = 400, headers = [],
                    body = JObj [(''error'', JStr ''Invalid JSON body provided.'')]\<rparr>, [])"
    by (simp add: get_news_handler_def error_result_def)
qed

theorem get_news_always_returns_witness:
  "(\<exists>res. fst (get_news_handler (Some ''secret-key'') parse_table always_fails
                 (post ''not json'')) = Returns res \<and>
          statusCode res \<in> {200, 400, 405, 500, 502})
   \<and> get_news_handler (Some ''secret-key'') parse_table always_fails (post ''not json'') =
          (Returns \<lparr>statusCode = 400, headers = [],
                    body = JObj [(''error'', JStr ''Invalid JSON body provided.'')]\<rparr>, [])"
  using get_news_always_returns [of "Some ''secret-key''" parse_table always_fails
      "post ''not json''" "SyntaxError ''Unexpected token''"]
  by (simp add: post_def key_missing_def parse_table_def to_String_def)

text \<open>
  The claim as stated fails twice on the unparseable body \<^verbatim>\<open>not json\<close>: sent with
  GET to get-news.js the result is 405 and not 400, since the method is checked first;
  sent to part_000, whose \<^verbatim>\<open>JSON.parse\<close> (line 20) stands outside any \<^verbatim>\<open>try\<close>, the
  handler throws the SyntaxError and returns no result.
\<close>

theorem unparseable_body_other_outcomes:
  "parse_table ''not json'' = Inl (SyntaxError ''Unexpected token'')
   \<and> get_news_handler (Some ''secret-key'') parse_table always_fails
        \<lparr>httpMethod = ''GET'', event_body = BodyText ''not json''\<rparr> =
       (Returns \<lparr>statusCode = 405, headers = [],
                 body = JObj [(''error'', JStr ''Method Not Allowed'')]\<rparr>, [])
   \<and> part_000_handler (Some ''secret-key'') parse_table always_fails (post ''not json'') =
       (Throws (SyntaxError ''Unexpected token''), [])"
  by (simp add: parse_table_def get_news_handler_def error_result_def part_000_handler_def
      key_missing_def post_def body_or_empty_object_def)

section \<open>The guards before validation\<close>

text \<open>
  C5, as amended.  In get-news.js every request whose method is not POST is answered
  with status 405 and no outbound call is made.  The handler of part_000 never reads
  the method: its outcome is the same for every method.
\<close>

theorem get_news_rejects_other_methods:
  "(httpMethod ev \<noteq> ''POST'' \<longrightarrow>
      get_news_handler API_KEY JSON_parse net ev =
        (Returns \<lparr>statusCode = 405, headers = [],
                  body = JObj [(''error'', JStr ''Method Not Allowed'')]\<rparr>, []))
   \<and> part_000_handler API_KEY JSON_parse net (ev\<lparr>httpMethod := m\<rparr>) =
       part_000_handler API_KEY JSON_parse net ev"
  by (simp add: get_news_handler_def error_result_def part_000_handler_def)

theorem get_news_rejects_other_methods_witness:
  \<open>get_news_handler (Some ''secret-key'') parse_table always_ok
      \<lparr>httpMethod = ''GET'', event_body = BodyText ''{"contents":[{"parts":[{"text":"hi"}]}]}''\<rparr> =
        (Returns \<lparr>statusCode = 405, headers = [],
                  body = JObj [(''error'', JStr ''Method Not Allowed'')]\<rparr>, [])\<close>
  using get_news_rejects_other_methods [of
      \<open>\<lparr>httpMethod = ''GET'', event_body = BodyText ''{"contents":[{"parts":[{"text":"hi"}]}]}''\<rparr>\<close>
      "Some ''secret-key''" parse_table always_ok]
  by simp

text \<open>
  The claim as stated fails on part_000: a GET request of type \<^verbatim>\<open>fetch\<close> is sent
  upstream and answered with status 200.
\<close>

theorem part_000_serves_get:
  \<open>part_000_handler (Some ''secret-key'') parse_table always_ok
      \<lparr>httpMethod = ''GET'', event_body = BodyText ''{"type":"fetch"}''\<rparr> =
     (Returns \<lparr>statusCode = 200, headers = [], body = JObj [(''candidates'', JArr [])]\<rparr>,
      [Fetch (gemini_request (Some ''secret-key'') fetch_payload)])\<close>
  by (simp add: always_ok_def ok_def part_000_handler_def key_missing_def
      body_or_empty_object_def parse_table_def get_prop_def call_gemini_def
      build_payload_def google_search_tools_def field_def fetch_payload_def)

text \<open>
  C7, as amended.  When the credential is unset or empty, part_000 returns status 500
  with an \<^verbatim>\<open>error\<close> field and makes no outbound call, for every request;
  get-news.js does so for every POST request.
\<close>

theorem missing_credential_is_500:
  "key_missing API_KEY \<Longrightarrow>
   part_000_handler API_KEY JSON_parse net ev =
     (Returns \<lparr>statusCode = 500, headers = [],
               body = JObj [(''error'', JStr ''API Key is not configured on the server.'')]\<rparr>, [])
   \<and> (httpMethod ev = ''POST'' \<longrightarrow>
        get_news_handler API_KEY JSON_parse net ev =
          (Returns \<lparr>statusCode = 500, headers = [],
                    body = JObj [(''error'', JStr ''Server configuration error: API key missing.'')]\<rparr>, []))"
  by (simp add: get_news_handler_def error_result_def part_000_handler_def)

theorem missing_credential_is_500_witness:
  "key_missing None \<and>
   part_000_handler None parse_table always_ok hi_event =
     (Returns \<lparr>statusCode = 500, headers = [],
               body = JObj [(''error'', JStr ''API Key is not configured on the server.'')]\<rparr>, [])
   \<and> get_news_handler None parse_table always_ok hi_event =
          (Returns \<lparr>statusCode = 500, headers = [],
                    body = JObj [(''error'', JStr ''Server configuration error: API key missing.'')]\<rparr>, [])"
  using missing_credential_is_500 [of None parse_table always_ok hi_event]
  by (simp add: key_missing_def hi_event_def post_def)

text \<open>
  The claim as stated fails on get-news.js, which checks the method first: without a
  credential a GET request is answered with 405, not 500.
\<close>

theorem get_news_checks_method_before_credential:
  "key_missing None \<and>
   get_news_handler None parse_table always_ok \<lparr>httpMethod = ''GET'', event_body = BodyNull\<rparr> =
     (Returns \<lparr>statusCode = 405, headers = [],
               body = JObj [(''error'', JStr ''Method Not Allowed'')]\<rparr>, [])"
  by (simp add: key_missing_def get_news_handler_def error_result_def)

text \<open>
  C10, as amended.  For a POST request with a configured credential whose body is
  absent (\<^verbatim>\<open>undefined\<close>, \<^verbatim>\<open>null\<close> or the empty text), both handlers return
  status 400 and make no outbound call, given what \<^verbatim>\<open>JSON.parse\<close> does on the
  four texts involved: it throws on \<^verbatim>\<open>undefined\<close> and on the empty text, and reads
  \<^verbatim>\<open>null\<close> and \<^verbatim>\<open>{}\<close> as the null value and the empty object.
\<close>

theorem absent_body_is_400:
  assumes "\<not> key_missing API_KEY" and "httpMethod ev = ''POST''"
    and "event_body ev = BodyUndefined \<or> event_body ev = BodyNull \<or> event_body ev = BodyText ''''"
    and "JSON_parse ''undefined'' = Inl e1" and "JSON_parse '''' = Inl e2"
    and "JSON_parse ''null'' = Inr JNull" and "JSON_parse ''{}'' = Inr (JObj [])"
  shows "(\<exists>msg. get_news_handler API_KEY JSON_parse net ev =
            (Returns \<lparr>statusCode = 400, headers = [], body = JObj [(''error'', JStr msg)]\<rparr>, []))
         \<and> part_000_handler API_KEY JSON_parse net ev =
            (Returns \<lparr>statusCode = 400, headers = [],
                      body = JObj [(''error'', JStr ''Invalid API type specified.'')]\<rparr>, [])"
  using assms
  by (auto simp: get_news_handler_def part_000_handler_def error_result_def to_String_def
      body_or_empty_object_def truthy_def get_prop_def)

theorem absent_body_is_400_witness:
  "(\<exists>msg. get_news_handler (Some ''secret-key'') parse_table always_ok
             \<lparr>httpMethod = ''POST'', event_body = BodyUndefined\<rparr> =
            (Returns \<lparr>statusCode = 400, headers = [], body = JObj [(''error'', JStr msg)]\<rparr>, []))
   \<and> part_000_handler (Some ''secret-key'') parse_table always_ok
        \<lparr>httpMethod = ''POST'', event_body = BodyUndefined\<rparr> =
       (Returns \<lparr>statusCode = 400, headers = [],
                 body = JObj [(''error'', JStr ''Invalid API type specified.'')]\<rparr>, [])"
  using absent_body_is_400 [of "Some ''secret-key''" "\<lparr>httpMethod = ''POST'', event_body = BodyUndefined\<rparr>"
      parse_table "SyntaxError ''Unexpected token''" "SyntaxError ''Unexpected token''" always_ok]
  by (simp add: key_missing_def parse_table_def)

text \<open>
  The claim as stated fails when the credential is missing: both handlers then answer
  a POST request without a body with status 500.
\<close>

theorem absent_body_without_credential:
  "get_news_handler None parse_table always_ok \<lparr>httpMethod = ''POST'', event_body = BodyUndefined\<rparr> =
     (Returns \<lparr>statusCode = 500, headers = [],
               body = JObj [(''error'', JStr ''Server configuration error: API key missing.'')]\<rparr>, [])
   \<and> part_000_handler None parse_table always_ok \<lparr>httpMethod = ''POST'', event_body = BodyUndefined\<rparr> =
     (Returns \<lparr>statusCode = 500, headers = [],
               body = JObj [(''error'', JStr ''API Key is not configured on the server.'')]\<rparr>, [])"
  by (simp add: key_missing_def get_news_handler_def part_000_handler_def error_result_def)

section \<open>Validation\<close>

text \<open>What the loop returns does not depend on the request it sends.\<close>

lemma retry_loop_fst_req: "fst (retry_loop mx net req a) = fst (retry_loop mx net req' a)"
proof (induction mx net req a rule: retry_loop.induct)
  case (1 mx net req attempt)
  show ?case
  proof (cases "attempt < mx")
    case False
    then show ?thesis
      by (simp add: retry_loop.simps[of mx net req attempt] retry_loop.simps[of mx net req' attempt])
  next
    case lt: True
    show ?thesis
    proof (cases "try_attempt (net attempt)")
      case (Inr res)
      with lt show ?thesis by (simp add: retry_loop_success)
    next
      case (Inl m)
      show ?thesis
      proof (cases "Suc attempt < mx")
        case True
        with Inl lt 1 show ?thesis by (simp add: retry_loop_again)
      next
        case False
        with lt have "Suc attempt = mx" by simp
        with Inl show ?thesis by (simp add: retry_loop_last)
      qed
    qed
  qed
qed

lemma retry_loop_calls: "snd (retry_loop 3 net req 0) \<noteq> []"
  by (simp add: retry_loop_unrolled split: sum.splits)

text \<open>
  C4, as amended.  With the method and the credential in order and a body that parses,
  get-news.js rejects with status 400, before any outbound call, exactly the payloads
  that are falsy or whose \<^verbatim>\<open>contents\<close> is absent or falsy (\<^verbatim>\<open>null\<close>,
  \<^verbatim>\<open>false\<close>, \<^verbatim>\<open>0\<close>, the empty string); an empty array is truthy and accepted.
  With the credential in order and a body that parses to a value other than
  \<^verbatim>\<open>null\<close>, part_000 rejects with status 400, before any outbound call, exactly the
  requests whose \<^verbatim>\<open>type\<close> is neither the string \<^verbatim>\<open>fetch\<close> nor the string
  \<^verbatim>\<open>summarize\<close>; it never looks at \<^verbatim>\<open>textToSummarize\<close> to reject.
\<close>

theorem validation_rejections:
  "(httpMethod ev = ''POST'' \<longrightarrow> \<not> key_missing API_KEY \<longrightarrow>
      JSON_parse (to_String (event_body ev)) = Inr payload \<longrightarrow>
      ((\<exists>res. get_news_handler API_KEY JSON_parse net ev = (Returns res, []) \<and> statusCode res = 400)
         \<longleftrightarrow> \<not> accepted_payload payload))
   \<and> (\<not> key_missing API_KEY \<longrightarrow>
      JSON_parse (body_or_empty_object (event_body ev)) = Inr b \<longrightarrow>
      get_prop b ''type'' = Inr apiType \<longrightarrow>
      ((\<exists>res. part_000_handler API_KEY JSON_parse net ev = (Returns res, []) \<and> statusCode res = 400)
         \<longleftrightarrow> (apiType \<noteq> Some (JStr ''fetch'') \<and> apiType \<noteq> Some (JStr ''summarize''))))"
proof (intro conjI impI)
  assume a: "httpMethod ev = ''POST''" "\<not> key_missing API_KEY"
    "JSON_parse (to_String (event_body ev)) = Inr payload"
  show "(\<exists>res. get_news_handler API_KEY JSON_parse net ev = (Returns res, []) \<and> statusCode res = 400)
         \<longleftrightarrow> \<not> accepted_payload payload"
  proof (cases "accepted_payload payload")
    case True
    with a have "get_news_handler API_KEY JSON_parse net ev =
        retry_loop 3 net (gemini_request API_KEY payload) 0"
      by (simp add: get_news_dispatch)
    with True retry_loop_calls [of net "gemini_request API_KEY payload"] show ?thesis
      by auto
  next
    case False
    with a truthy_get_prop [of payload "''contents''"] show ?thesis
      by (auto simp: get_news_handler_def accepted_payload_def error_result_def split: sum.splits)
  qed
next
  assume a: "\<not> key_missing API_KEY" "JSON_parse (body_or_empty_object (event_body ev)) = Inr b"
    "get_prop b ''type'' = Inr apiType"
  from a(3) obtain q where q: "get_prop b ''textToSummarize'' = Inr q"
    using get_prop_other by blast
  show "(\<exists>res. part_000_handler API_KEY JSON_parse net ev = (Returns res, []) \<and> statusCode res = 400)
         \<longleftrightarrow> (apiType \<noteq> Some (JStr ''fetch'') \<and> apiType \<noteq> Some (JStr ''summarize''))"
    using a q call_gemini_trace [of API_KEY net]
    by (auto simp: part_000_handler_def error_result_def dest: arg_cong [where f = snd])
qed

theorem validation_rejections_witness:
  \<open>((\<exists>res. get_news_handler (Some ''secret-key'') parse_table always_ok (post ''{}'') =
            (Returns res, []) \<and> statusCode res = 400)
      \<longleftrightarrow> \<not> accepted_payload (JObj []))
   \<and> \<not> accepted_payload (JObj [])
   \<and> ((\<exists>res. part_000_handler (Some ''secret-key'') parse_table always_ok (post ''{}'') =
            (Returns res, []) \<and> statusCode res = 400)
      \<longleftrightarrow> (None \<noteq> Some (JStr ''fetch'') \<and> None \<noteq> Some (JStr ''summarize'')))\<close>
  using validation_rejections [of "post ''{}''" "Some ''secret-key''" parse_table "JObj []"
      always_ok "JObj []" None]
  by (simp add: post_def key_missing_def parse_table_def to_String_def body_or_empty_object_def
      get_prop_def accepted_payload_def truthy_def truthy_opt_def)

text \<open>
  The claim as stated fails on both handlers: get-news.js sends a payload whose
  \<^verbatim>\<open>contents\<close> is the empty array, and part_000 sends a summarize request that has
  no \<^verbatim>\<open>textToSummarize\<close> (the payload then has no \<^verbatim>\<open>text\<close>).
\<close>

theorem empty_contents_and_missing_text_are_sent:
  \<open>get_news_handler (Some ''secret-key'') parse_table always_ok (post ''{"contents":[]}'') =
     (Returns \<lparr>statusCode = 200, headers = [(''Content-Type'', ''application/json'')],
               body = JObj [(''candidates'', JArr [])]\<rparr>,
      [Fetch (gemini_request (Some ''secret-key'') empty_contents_payload)])
   \<and> part_000_handler (Some ''secret-key'') parse_table always_ok (post ''{"type":"summarize"}'') =
     (Returns \<lparr>statusCode = 200, headers = [], body = JObj [(''candidates'', JArr [])]\<rparr>,
      [Fetch (gemini_request (Some ''secret-key'') (summarize_payload None))])\<close>
proof -
  have "accepted_payload empty_contents_payload"
    by (simp add: accepted_payload_def empty_contents_payload_def truthy_def truthy_opt_def
        get_prop_def)
  moreover have \<open>parse_table ''{"contents":[]}'' = Inr empty_contents_payload\<close>
    by (simp add: parse_table_def empty_contents_payload_def)
  ultimately have
    \<open>get_news_handler (Some ''secret-key'') parse_table always_ok (post ''{"contents":[]}'') =
       retry_loop 3 always_ok (gemini_request (Some ''secret-key'') empty_contents_payload) 0\<close>
    by (simp add: get_news_dispatch post_def key_missing_def to_String_def)
  moreover have "try_attempt (always_ok 0) =
      Inr \<lparr>statusCode = 200, headers = [(''Content-Type'', ''application/json'')],
           body = JObj [(''candidates'', JArr [])]\<rparr>"
    by (simp add: try_attempt_def always_ok_def ok_def)
  ultimately show ?thesis
    by (simp add: retry_loop_unrolled part_000_handler_def key_missing_def post_def
        body_or_empty_object_def parse_table_def get_prop_def call_gemini_def always_ok_def
        ok_def build_payload_def summarize_payload_def)
qed

section \<open>The credential\<close>

text \<open>
  What the handlers build themselves does not depend on the credential: for the same
  request and the same behaviour of the parser and of the upstream, any two configured
  credentials give the same result.
\<close>

lemma result_independent_of_credential:
  "\<not> key_missing k1 \<Longrightarrow> \<not> key_missing k2 \<Longrightarrow>
   fst (get_news_handler k1 JSON_parse net ev) = fst (get_news_handler k2 JSON_parse net ev)
   \<and> fst (part_000_handler k1 JSON_parse net ev) = fst (part_000_handler k2 JSON_parse net ev)"
  using retry_loop_fst_req [of maxRetries net "gemini_request k1 p" 0 "gemini_request k2 p" for p]
    call_gemini_fst_key [of k1 net _ k2]
  by (simp add: get_news_handler_def part_000_handler_def split: sum.splits)


section \<open>The payloads of part_000\<close>

text \<open>
  C8.  For a request of part_000 whose \<^verbatim>\<open>type\<close> is \<^verbatim>\<open>fetch\<close> or
  \<^verbatim>\<open>summarize\<close>, exactly one payload is sent; its \<^verbatim>\<open>tools\<close> field is
  \<^verbatim>\<open>[{"google_search": {}}]\<close> when the type is \<^verbatim>\<open>fetch\<close>, and it has no
  \<^verbatim>\<open>tools\<close> field when the type is \<^verbatim>\<open>summarize\<close>.
\<close>

theorem part_000_tools_iff_fetch:
  assumes "\<not> key_missing API_KEY"
    and "JSON_parse (body_or_empty_object (event_body ev)) = Inr b"
    and "get_prop b ''type'' = Inr (Some (JStr t))"
    and "t = ''fetch'' \<or> t = ''summarize''"
  shows "map (\<lambda>p. get_prop p ''tools'')
           (sent_payloads (snd (part_000_handler API_KEY JSON_parse net ev))) =
         [Inr (if t = ''fetch'' then Some (JArr [JObj [(''google_search'', JObj [])]])
               else None)]"
proof -
  from assms(3) obtain q where q: "get_prop b ''textToSummarize'' = Inr q"
    using get_prop_other by blast
  from assms(4) show ?thesis
  proof
    assume "t = ''fetch''"
    with assms(1-3) show ?thesis
      by (simp add: part_000_handler_def call_gemini_trace build_payload_def
          google_search_tools_def gemini_request_def get_prop_def)
  next
    assume "t = ''summarize''"
    with assms(1-3) q show ?thesis
      by (simp add: part_000_handler_def call_gemini_trace build_payload_def
          gemini_request_def get_prop_def)
  qed
qed

theorem part_000_tools_iff_fetch_witness:
  \<open>map (\<lambda>p. get_prop p ''tools'')
     (sent_payloads (snd (part_000_handler (Some ''secret-key'') parse_table always_ok
        (post ''{"type":"fetch"}'')))) =
   [Inr (Some (JArr [JObj [(''google_search'', JObj [])]]))]\<close>
  using part_000_tools_iff_fetch [of "Some ''secret-key''" parse_table
      \<open>post ''{"type":"fetch"}''\<close> "JObj [(''type'', JStr ''fetch'')]" "''fetch''" always_ok]
  by (simp add: key_missing_def post_def body_or_empty_object_def parse_table_def get_prop_def)

text \<open>
  C9.  For a summarize request of part_000 whose \<^verbatim>\<open>textToSummarize\<close> is a text
  (non-empty or not), the payload sent has that text, unchanged, as its user content,
  and its system instruction contains the sentence on 60 words or less.
\<close>

theorem part_000_summarize_payload:
  assumes "\<not> key_missing API_KEY"
    and "JSON_parse (body_or_empty_object (event_body ev)) = Inr b"
    and "get_prop b ''type'' = Inr (Some (JStr ''summarize''))"
    and "get_prop b ''textToSummarize'' = Inr (Some (JStr txt))"
  shows "snd (part_000_handler API_KEY JSON_parse net ev) =
           [Fetch (gemini_request API_KEY
              (JObj [(''contents'', JArr [JObj [(''parts'', JArr [JObj [(''text'', JStr txt)]])]]),
                     (''systemInstruction'',
                      JObj [(''parts'', JArr [JObj [(''text'', JStr summarize_systemPrompt)]])])]))]
         \<and> (\<exists>pre post. summarize_systemPrompt =
                pre @ ''The summary must be 60 words or less.'' @ post)"
proof
  show "snd (part_000_handler API_KEY JSON_parse net ev) =
           [Fetch (gemini_request API_KEY
              (JObj [(''contents'', JArr [JObj [(''parts'', JArr [JObj [(''text'', JStr txt)]])]]),
                     (''systemInstruction'',
                      JObj [(''parts'', JArr [JObj [(''text'', JStr summarize_systemPrompt)]])])]))]"
    using assms
    by (simp add: part_000_handler_def call_gemini_trace build_payload_def field_def)
  have "summarize_systemPrompt =
      ''You are a highly efficient editor. Condense the provided financial news content into a single, cohesive, jargon-free paragraph. ''
      @ ''The summary must be 60 words or less.''
      @ '' Do not use a title, introduction, or citation placeholders.''"
    by (simp add: summarize_systemPrompt_def)
  then show "\<exists>pre post. summarize_systemPrompt =
                pre @ ''The summary must be 60 words or less.'' @ post"
    by blast
qed

theorem part_000_summarize_payload_witness:
  \<open>snd (part_000_handler (Some ''secret-key'') parse_table always_ok
          (post ''{"type":"summarize","textToSummarize":"Markets rose."}'')) =
     [Fetch (gemini_request (Some ''secret-key'')
        (JObj [(''contents'', JArr [JObj [(''parts'', JArr [JObj [(''text'', JStr ''Markets rose.'')]])]]),
               (''systemInstruction'',
                JObj [(''parts'', JArr [JObj [(''text'', JStr summarize_systemPrompt)]])])]))]\<close>
  using part_000_summarize_payload [of "Some ''secret-key''" parse_table
      \<open>post ''{"type":"summarize","textToSummarize":"Markets rose."}''\<close>
      "JObj [(''type'', JStr ''summarize''), (''textToSummarize'', JStr ''Markets rose.'')]"
      "''Markets rose.''" always_ok]
  by (simp add: key_missing_def post_def body_or_empty_object_def parse_table_def get_prop_def)

section \<open>The loop for any bound\<close>

text \<open>
  The source fixes the bound at three.  For any bound, when every remaining attempt
  fails the loop ends with the result of exhaustion, carrying the message of the last
  failure, after one outbound call per remaining attempt.
\<close>

lemma retry_loop_exhausted:
  "a < mx \<Longrightarrow> (\<And>k. a \<le> k \<Longrightarrow> k < mx \<Longrightarrow> upstream_fails (net k)) \<Longrightarrow>
   fst (retry_loop mx net req a) = Returns (retries_exhausted (failure_message (net (mx - 1))))
   \<and> outbound_calls (snd (retry_loop mx net req a)) = mx - a"
proof (induction mx net req a rule: retry_loop.induct)
  case (1 mx net req attempt)
  have fail: "try_attempt (net attempt) = Inl (failure_message (net attempt))"
    using "1.prems" by (simp add: try_attempt_failure)
  show ?case
  proof (cases "Suc attempt < mx")
    case True
    with fail "1.prems" have
      "fst (retry_loop mx net req (attempt + 1)) =
         Returns (retries_exhausted (failure_message (net (mx - 1))))
       \<and> outbound_calls (snd (retry_loop mx net req (attempt + 1))) = mx - (attempt + 1)"
      by (intro "1.IH") auto
    with True fail show ?thesis
      by (simp add: retry_loop_again Suc_diff_Suc)
  next
    case False
    with "1.prems" have last: "Suc attempt = mx" by simp
    then have "mx - 1 = attempt" by simp
    with last fail show ?thesis
      by (simp add: retry_loop_last)
  qed
qed

end
